theory Spec2Isabelle
  imports Complex_Main "HOL-Library.Char_ord"
begin

section \<open>Strings and Python built-ins used by \<open>Program.py\<close>\<close>

text \<open>
  Python strings are modelled by \<open>string\<close>. The model covers ASCII text: \<open>str.upper\<close>,
  the regular-expression class \<open>\w\<close> and \<open>int\<close> are given on the ASCII letters and digits,
  where they agree with Python; what Python's Unicode tables do with other characters
  is not part of the model. Floating-point numbers are modelled by \<open>real\<close>.
\<close>

datatype error = IndexError | KeyError | ValueError | TypeError | AttributeError | RuntimeError

definition is_lower :: "char \<Rightarrow> bool" where
  "is_lower c = (CHR ''a'' \<le> c \<and> c \<le> CHR ''z'')"

definition is_upper :: "char \<Rightarrow> bool" where
  "is_upper c = (CHR ''A'' \<le> c \<and> c \<le> CHR ''Z'')"

definition is_digit :: "char \<Rightarrow> bool" where
  "is_digit c = (CHR ''0'' \<le> c \<and> c \<le> CHR ''9'')"

definition upper_char :: "char \<Rightarrow> char" where
  "upper_char c = (if is_lower c then char_of (of_char c - (32::nat)) else c)"

text \<open>\<open>s.upper()\<close>\<close>

definition upper :: "string \<Rightarrow> string" where
  "upper s = map upper_char s"

text \<open>
  Two strings are equal up to letter casing when they have the same length and, at
  every position, hold the same character or the two casings of one letter.
\<close>

definition same_letter :: "char \<Rightarrow> char \<Rightarrow> bool" where
  "same_letter c d =
     (c = d \<or> (is_lower c \<and> d = upper_char c) \<or> (is_lower d \<and> c = upper_char d))"

definition equal_up_to_case :: "string \<Rightarrow> string \<Rightarrow> bool" where
  "equal_up_to_case s t = list_all2 same_letter s t"

text \<open>The character class \<open>[\w']\<close> of the pattern in \<open>to_date\<close>.\<close>

definition is_word_char :: "char \<Rightarrow> bool" where
  "is_word_char c = (is_lower c \<or> is_upper c \<or> is_digit c \<or> c = CHR ''_'' \<or> c = CHR 0x27)"

text \<open>
  \<open>re.findall(r"[\w']+", s)\<close>: the maximal runs of characters of the class, from left to
  right. The first argument is the run being read.
\<close>

fun findall_from :: "string \<Rightarrow> string \<Rightarrow> string list" where
  "findall_from cur [] = (if cur = [] then [] else [cur])"
| "findall_from cur (c # cs) =
     (if is_word_char c then findall_from (cur @ [c]) cs
      else (if cur = [] then [] else [cur]) @ findall_from [] cs)"

definition findall :: "string \<Rightarrow> string list" where
  "findall s = findall_from [] s"

text \<open>\<open>s.split('.')\<close>: the pieces between the dots; always at least one piece.\<close>

fun split_from :: "string \<Rightarrow> string \<Rightarrow> string list" where
  "split_from cur [] = [cur]"
| "split_from cur (c # cs) =
     (if c = CHR ''.'' then cur # split_from [] cs else split_from (cur @ [c]) cs)"

definition split_dot :: "string \<Rightarrow> string list" where
  "split_dot s = split_from [] s"

text \<open>\<open>arr[i]\<close> for a non-negative literal index.\<close>

definition getitem :: "'a list \<Rightarrow> nat \<Rightarrow> error + 'a" where
  "getitem arr i = (if i < length arr then Inr (arr ! i) else Inl IndexError)"

text \<open>
  \<open>int(tok)\<close> on a token of \<open>findall\<close>. Such a token holds no blank and no sign, so
  \<open>int\<close> accepts it exactly when it is made of groups of decimal digits separated by
  single underscores. The flag says that the previous character was a digit. (The
  interpreter's configurable cap on the number of digits is not modelled.)
\<close>

definition digit_value :: "char \<Rightarrow> int" where
  "digit_value c = int (of_char c - (48::nat))"

fun int_digits :: "int \<Rightarrow> bool \<Rightarrow> string \<Rightarrow> int option" where
  "int_digits acc prev [] = (if prev then Some acc else None)"
| "int_digits acc prev (c # cs) =
     (if is_digit c then int_digits (10 * acc + digit_value c) True cs
      else if c = CHR ''_'' \<and> prev then int_digits acc False cs
      else None)"

definition py_int :: "string \<Rightarrow> error + int" where
  "py_int tok = (case int_digits 0 False tok of None \<Rightarrow> Inl ValueError | Some n \<Rightarrow> Inr n)"

section \<open>QuantLib enumerations and objects named in the source\<close>

datatype month = January | February | March | April | May | June
  | July | August | September | October | November | December

datatype businessDayConvention =
  Following | ModifiedFollowing | Preceding | ModifiedPreceding | Unadjusted

datatype calendar = TARGET | UnitedStates | UnitedKingdom

datatype swapType = Payer | Receiver

datatype frequency = Daily | Weekly | Monthly | Quarterly | Semiannual | Annual

datatype dateGenerationRule = Backward | Forward

datatype dayCounter = Actual360 | Actual365Fixed | ActualActual | Actual365NoLeap
  | Business252 | OneDayCounter | SimpleDayCounter | Thirty360

text \<open>
  An ibor index: its family, its tenor and the forwarding term structure it is linked
  to (none after \<open>ql.USDLibor(period)\<close>). \<open>clone\<close> returns the same index linked to the
  given term structure.
\<close>

datatype ('p, 'c) iborIndex = USDLibor 'p "'c option" | Euribor 'p "'c option"

fun clone :: "('p, 'c) iborIndex \<Rightarrow> 'c \<Rightarrow> ('p, 'c) iborIndex" where
  "clone (USDLibor p _) h = USDLibor p (Some h)"
| "clone (Euribor p _) h = Euribor p (Some h)"

section \<open>class \<open>Convert\<close>\<close>

text \<open>
  A function of \<open>Convert\<close> whose chain of \<open>if\<close> statements is exhausted returns Python's
  \<open>None\<close>: the result type is an option, \<open>None\<close> for \<open>None\<close>. The functions that can
  raise return \<open>error + _\<close>.
\<close>

definition monthDictionary :: "string \<rightharpoonup> month" where
  "monthDictionary = [
     ''01'' \<mapsto> January, ''02'' \<mapsto> February, ''03'' \<mapsto> March,
     ''04'' \<mapsto> April, ''05'' \<mapsto> May, ''06'' \<mapsto> June,
     ''07'' \<mapsto> July, ''08'' \<mapsto> August, ''09'' \<mapsto> September,
     ''10'' \<mapsto> October, ''11'' \<mapsto> November, ''12'' \<mapsto> December]"

text \<open>
  \<open>ql.Date(d, m, y)\<close> is a parameter: the constructor of the library, which may reject
  its arguments. Python evaluates the three arguments from left to right.
\<close>

definition to_date :: "(int \<Rightarrow> month \<Rightarrow> int \<Rightarrow> error + 'd) \<Rightarrow> string \<Rightarrow> error + 'd" where
  "to_date ql_Date s =
     (let arr = findall s in
      case getitem arr 2 of Inl e \<Rightarrow> Inl e | Inr a2 \<Rightarrow>
      case py_int a2 of Inl e \<Rightarrow> Inl e | Inr d \<Rightarrow>
      case getitem arr 1 of Inl e \<Rightarrow> Inl e | Inr a1 \<Rightarrow>
      case monthDictionary a1 of None \<Rightarrow> Inl KeyError | Some m \<Rightarrow>
      case getitem arr 0 of Inl e \<Rightarrow> Inl e | Inr a0 \<Rightarrow>
      case py_int a0 of Inl e \<Rightarrow> Inl e | Inr y \<Rightarrow>
      ql_Date d m y)"

definition to_businessDayConvention :: "string \<Rightarrow> businessDayConvention option" where
  "to_businessDayConvention s =
     (if upper s = ''FOLLOWING'' then Some Following
      else if upper s = ''MODIFIEDFOLLOWING'' then Some ModifiedFollowing
      else if upper s = ''PRECEDING'' then Some Preceding
      else if upper s = ''MODIFIEDPRECEDING'' then Some ModifiedPreceding
      else if upper s = ''UNADJUSTED'' then Some Unadjusted
      else None)"

definition to_calendar :: "string \<Rightarrow> calendar option" where
  "to_calendar s =
     (if upper s = ''TARGET'' then Some TARGET
      else if upper s = ''UNITEDSTATES'' then Some UnitedStates
      else if upper s = ''UNITEDKINGDOM'' then Some UnitedKingdom
      else None)"

definition to_swapType :: "string \<Rightarrow> swapType option" where
  "to_swapType s =
     (if upper s = ''PAYER'' then Some Payer
      else if upper s = ''RECEIVER'' then Some Receiver
      else None)"

definition to_frequency :: "string \<Rightarrow> frequency option" where
  "to_frequency s =
     (if upper s = ''DAILY'' then Some Daily
      else if upper s = ''WEEKLY'' then Some Weekly
      else if upper s = ''MONTHLY'' then Some Monthly
      else if upper s = ''QUARTERLY'' then Some Quarterly
      else if upper s = ''SEMIANNUAL'' then Some Semiannual
      else if upper s = ''ANNUAL'' then Some Annual
      else None)"

definition to_dateGenerationRule :: "string \<Rightarrow> dateGenerationRule option" where
  "to_dateGenerationRule s =
     (if upper s = ''BACKWARD'' then Some Backward
      else if upper s = ''FORWARD'' then Some Forward
      else None)"

definition to_dayCounter :: "string \<Rightarrow> dayCounter option" where
  "to_dayCounter s =
     (if upper s = ''ACTUAL360'' then Some Actual360
      else if upper s = ''ACTUAL365FIXED'' then Some Actual365Fixed
      else if upper s = ''ACTUALACTUAL'' then Some ActualActual
      else if upper s = ''ACTUAL365NOLEAP'' then Some Actual365NoLeap
      else if upper s = ''BUSINESS252'' then Some Business252
      else if upper s = ''ONEDAYCOUNTER'' then Some OneDayCounter
      else if upper s = ''SIMPLEDAYCOUNTER'' then Some SimpleDayCounter
      else if upper s = ''THIRTY360'' then Some Thirty360
      else None)"

text \<open>
  \<open>ql.Period(s[1])\<close> is a parameter: the library's parser of a tenor such as \<open>3M\<close>.
  \<open>s[1]\<close> is read only on a branch whose test succeeded.
\<close>

definition to_iborIndex ::
  "(string \<Rightarrow> error + 'p) \<Rightarrow> string \<Rightarrow> error + ('p, 'c) iborIndex option" where
  "to_iborIndex ql_Period s0 =
     (let s = split_dot s0 in
      case getitem s 0 of Inl e \<Rightarrow> Inl e | Inr name \<Rightarrow>
      if upper name = ''USDLIBOR'' then
        (case getitem s 1 of Inl e \<Rightarrow> Inl e | Inr tenor \<Rightarrow>
         case ql_Period tenor of Inl e \<Rightarrow> Inl e | Inr p \<Rightarrow> Inr (Some (USDLibor p None)))
      else if upper name = ''EURIBOR'' then
        (case getitem s 1 of Inl e \<Rightarrow> Inl e | Inr tenor \<Rightarrow>
         case ql_Period tenor of Inl e \<Rightarrow> Inl e | Inr p \<Rightarrow> Inr (Some (Euribor p None)))
      else Inr None)"

section \<open>The objective function\<close>

text \<open>\<open>np.diff\<close>: the differences of neighbouring entries.\<close>

fun diff :: "real list \<Rightarrow> real list" where
  "diff (a # b # xs) = (b - a) # diff (b # xs)"
| "diff _ = []"

text \<open>\<open>args\<close> is the two-element list \<open>[market rates, scaling factor]\<close>.\<close>

definition ObjectiveFunction :: "real list \<Rightarrow> real list \<times> real \<Rightarrow> real" where
  "ObjectiveFunction x args =
     (let x = fst args @ x in sum_list (map (\<lambda>d. d ^ 2 * snd args) (diff x)))"

section \<open>class \<open>VanillaSwap\<close>\<close>

text \<open>
  The objects of the pricing library that the class builds. A term-structure handle
  wraps a curve; a pricing engine holds the handle it discounts with; the library's
  swap instrument holds its constructor arguments and the engine set on it.
\<close>

datatype 'c handle = YieldTermStructureHandle 'c

datatype 'c engine = DiscountingSwapEngine "'c handle"

record ('s, 'p, 'c) ql_VanillaSwap =
  arg_swapType :: "swapType option"
  arg_nominal :: real
  arg_fixedSchedule :: 's
  arg_fixedRate :: real
  arg_fixedDayCount :: "dayCounter option"
  arg_floatSchedule :: 's
  arg_iborIndex :: "('p, 'c handle) iborIndex"
  arg_spread :: real
  arg_floatingDayCount :: "dayCounter option"
  pricingEngine :: "'c engine option"

definition setPricingEngine ::
  "('s, 'p, 'c) ql_VanillaSwap \<Rightarrow> 'c engine \<Rightarrow> ('s, 'p, 'c) ql_VanillaSwap" where
  "setPricingEngine inst e = inst\<lparr>pricingEngine := Some e\<rparr>"

text \<open>
  The two calls into the library whose result the class cannot construct itself are
  parameters: the constructor of a forward curve from dates and rates (which may
  reject them) and the valuation of an instrument that has an engine.
\<close>

record ('d, 's, 'p, 'c) quantlib =
  ql_ForwardCurve ::
    "'d list \<Rightarrow> real list \<Rightarrow> dayCounter option \<Rightarrow> calendar option \<Rightarrow> error + 'c"
  ql_NPV :: "('s, 'p, 'c) ql_VanillaSwap \<Rightarrow> error + real"

text \<open>
  The member data of a \<open>VanillaSwap\<close> object. The fields filled from \<open>Convert\<close> hold
  what \<open>Convert\<close> returned, \<open>None\<close> included. \<open>instrument\<close> is not set by the
  constructor: it is \<open>None\<close> until the first valuation.
\<close>

record ('d, 's, 'p, 'c) VanillaSwap =
  ID :: string
  swapType :: "swapType option"
  nominal :: real
  startDate :: 'd
  maturityDate :: 'd
  fixedLegFrequency :: 'p
  fixedLegCalendar :: "calendar option"
  fixedLegConvention :: "businessDayConvention option"
  fixedLegDateGenerationRule :: "dateGenerationRule option"
  fixedLegRate :: real
  fixedLegDayCount :: "dayCounter option"
  fixedLegEndOfMonth :: bool
  floatingLegFrequency :: 'p
  floatingLegCalendar :: "calendar option"
  floatingLegConvention :: "businessDayConvention option"
  floatingLegDateGenerationRule :: "dateGenerationRule option"
  floatingLegSpread :: real
  floatingLegDayCount :: "dayCounter option"
  floatingLegEndOfMonth :: bool
  floatingLegIborIndex :: "('p, 'c handle) iborIndex option"
  fixedLegSchedule :: 's
  floatingLegSchedule :: 's
  instrument :: "('s, 'p, 'c) ql_VanillaSwap option"

text \<open>
  The statements shared by both valuation methods, after the index has been stored:
  build the library's swap from the member data, store it in \<open>self.instrument\<close>, set
  the discounting engine on it and ask for its value. The result is the returned
  value (or the exception raised) and the object as the call leaves it.
\<close>

definition price_with ::
  "('d, 's, 'p, 'c) quantlib \<Rightarrow> ('d, 's, 'p, 'c) VanillaSwap \<Rightarrow> 'c handle \<Rightarrow>
     (error + real) \<times> ('d, 's, 'p, 'c) VanillaSwap" where
  "price_with ql self curve =
     (case floatingLegIborIndex self of
        None \<Rightarrow> (Inl TypeError, self)
      | Some idx \<Rightarrow>
          let inst = setPricingEngine
                \<lparr>arg_swapType = swapType self,
                 arg_nominal = nominal self,
                 arg_fixedSchedule = fixedLegSchedule self,
                 arg_fixedRate = fixedLegRate self,
                 arg_fixedDayCount = fixedLegDayCount self,
                 arg_floatSchedule = floatingLegSchedule self,
                 arg_iborIndex = idx,
                 arg_spread = floatingLegSpread self,
                 arg_floatingDayCount = floatingLegDayCount self,
                 pricingEngine = None\<rparr>
                (DiscountingSwapEngine curve);
              self = self\<lparr>instrument := Some inst\<rparr>
          in (ql_NPV ql inst, self))"

text \<open>
  \<open>NPV_calibration(self, x, args)\<close>, with \<open>args = [forward dates, market rates]\<close>.
  An exception leaves the object as it was when it was raised.
\<close>

definition NPV_calibration ::
  "('d, 's, 'p, 'c) quantlib \<Rightarrow> ('d, 's, 'p, 'c) VanillaSwap \<Rightarrow> real list \<Rightarrow>
     'd list \<times> real list \<Rightarrow> (error + real) \<times> ('d, 's, 'p, 'c) VanillaSwap" where
  "NPV_calibration ql self x args =
     (let x = snd args @ x in
      case ql_ForwardCurve ql (fst args) x (floatingLegDayCount self) (floatingLegCalendar self) of
        Inl e \<Rightarrow> (Inl e, self)
      | Inr fc \<Rightarrow>
          let curve = YieldTermStructureHandle fc in
          case floatingLegIborIndex self of
            None \<Rightarrow> (Inl AttributeError, self)
          | Some idx \<Rightarrow>
              let self = self\<lparr>floatingLegIborIndex := Some (clone idx curve)\<rparr>
              in price_with ql self curve)"

text \<open>\<open>NPV(self, yieldTermStructureHandle, floatingLegIborIndex)\<close>\<close>

definition NPV ::
  "('d, 's, 'p, 'c) quantlib \<Rightarrow> ('d, 's, 'p, 'c) VanillaSwap \<Rightarrow> 'c handle \<Rightarrow>
     ('p, 'c handle) iborIndex \<Rightarrow> (error + real) \<times> ('d, 's, 'p, 'c) VanillaSwap" where
  "NPV ql self yieldTermStructureHandle floatingLegIborIndex' =
     (let self = self\<lparr>floatingLegIborIndex :=
                   Some (clone floatingLegIborIndex' yieldTermStructureHandle)\<rparr>
      in price_with ql self yieldTermStructureHandle)"

text \<open>
  A sequence of valuation calls made on one swap object, and the object they leave:
  each call works on the object as the call before it left it.
\<close>

datatype ('d, 'p, 'c) valuation =
  Calibration "real list" "'d list \<times> real list"
| Pricing "'c handle" "('p, 'c handle) iborIndex"

fun after ::
  "('d, 's, 'p, 'c) quantlib \<Rightarrow> ('d, 's, 'p, 'c) VanillaSwap \<Rightarrow> ('d, 'p, 'c) valuation list \<Rightarrow>
     ('d, 's, 'p, 'c) VanillaSwap" where
  "after ql self [] = self"
| "after ql self (Calibration x args # vs) = after ql (snd (NPV_calibration ql self x args)) vs"
| "after ql self (Pricing h i # vs) = after ql (snd (NPV ql self h i)) vs"

fun is_calibration :: "('d, 'p, 'c) valuation \<Rightarrow> bool" where
  "is_calibration (Calibration x args) = True"
| "is_calibration (Pricing h i) = False"

section \<open>The calibration script\<close>

definition swapIDs :: "string list" where
  "swapIDs = [''2Y'', ''3Y'', ''4Y'', ''5Y'', ''6Y'', ''7Y'', ''8Y'', ''9Y'', ''10Y'',
     ''12Y'', ''15Y'', ''20Y'', ''25Y'', ''30Y'']"

definition maturities :: "string list" where
  "maturities = [''2010-02-08'', ''2011-02-07'', ''2012-02-06'', ''2013-02-06'',
     ''2014-02-06'', ''2015-02-06'', ''2016-02-08'', ''2017-02-06'', ''2018-02-06'',
     ''2020-02-06'', ''2023-02-06'', ''2028-02-07'', ''2033-02-07'', ''2038-02-08'']"

definition swapRates :: "real list" where
  "swapRates = [0.02795, 0.03035, 0.03275, 0.03505, 0.03715, 0.03885, 0.04025, 0.04155,
     0.04265, 0.04435, 0.04615, 0.04755, 0.04805, 0.04815]"

definition initialMarketData :: "real list" where
  "initialMarketData = [0.03145, 0.0279275, 0.0253077, 0.0249374]"

definition initialForwardGuesses :: "real list" where
  "initialForwardGuesses = replicate 117 0.02"

definition scalingFactor :: real where
  "scalingFactor = 1000000.0"

text \<open>
  One entry of \<open>swapConstraints\<close>: the dictionary with the keys \<open>type\<close>, \<open>fun\<close> and
  \<open>args\<close>. \<open>fun\<close> is the bound method \<open>swap.NPV_calibration\<close>, represented by the swap it
  is bound to; \<open>args\<close> is the one-element list \<open>[[dates, initialMarketData]]\<close>.
\<close>

record ('d, 's, 'p, 'c) constraint =
  type_c :: string
  fun_c :: "('d, 's, 'p, 'c) VanillaSwap"
  args_c :: "('d list \<times> real list) list"

definition swapConstraints ::
  "('d, 's, 'p, 'c) VanillaSwap list \<Rightarrow> 'd list \<Rightarrow> ('d, 's, 'p, 'c) constraint list" where
  "swapConstraints swaps dates =
     map (\<lambda>swap. \<lparr>type_c = ''eq'', fun_c = swap, args_c = [(dates, initialMarketData)]\<rparr>) swaps"

text \<open>
  How the optimizer evaluates a constraint at \<open>x\<close>: \<open>fun(x, *args)\<close>. The bound method
  takes exactly one argument after \<open>x\<close>.
\<close>

definition call_constraint ::
  "('d, 's, 'p, 'c) quantlib \<Rightarrow> ('d, 's, 'p, 'c) constraint \<Rightarrow> real list \<Rightarrow>
     (error + real) \<times> ('d, 's, 'p, 'c) VanillaSwap" where
  "call_constraint ql c x =
     (case args_c c of
        [a] \<Rightarrow> NPV_calibration ql (fun_c c) x a
      | _ \<Rightarrow> (Inl TypeError, fun_c c))"

text \<open>The arguments of the call \<open>opt.minimize(...)\<close>.\<close>

record ('d, 's, 'p, 'c) minimize_call =
  fun_m :: "real list \<Rightarrow> real list \<times> real \<Rightarrow> real"
  x0 :: "real list"
  args_m :: "real list \<times> real"
  method_m :: string
  options_m :: "string \<rightharpoonup> nat"
  constraints_m :: "('d, 's, 'p, 'c) constraint list"

definition model_call ::
  "('d, 's, 'p, 'c) VanillaSwap list \<Rightarrow> 'd list \<Rightarrow> ('d, 's, 'p, 'c) minimize_call" where
  "model_call swaps dates =
     \<lparr>fun_m = ObjectiveFunction,
      x0 = initialForwardGuesses,
      args_m = (initialMarketData, scalingFactor),
      method_m = ''SLSQP'',
      options_m = [''maxiter'' \<mapsto> 500],
      constraints_m = swapConstraints swaps dates\<rparr>"

section \<open>The calendar and schedule library, from the specification\<close>

text \<open>
  The script builds its grid of knot dates with the calendar and the schedule of the
  pricing library, which are not part of the source. This section models them from
  sections 3, 4.1 and 4.2 of the specification. The holiday rule of a calendar is in
  neither the source nor the specification: it is a parameter \<open>holiday\<close>, the
  predicate of the dates the calendar closes on besides Saturdays and Sundays.
\<close>

































text \<open>
  Modelled from the spec: the errors of the taxonomy of section 7 that the library
  components raise; the source has no such type.
\<close>

datatype spec_error = ConfigurationError | DomainError





section \<open>A small instance for the examples\<close>

text \<open>
  An instance of the library with dates and schedules as numbers and a curve as the
  pair of its dates and rates: the curve constructor rejects lists of different
  lengths, and the value of an instrument is read off the curve of its engine. The
  swap is a two-year payer swap as the script builds them, before any valuation.
\<close>

definition example_ql :: "(nat, nat list, string, nat list \<times> real list) quantlib" where
  "example_ql =
     \<lparr>ql_ForwardCurve = (\<lambda>ds rs dc cal.
        if length ds = length rs then Inr (ds, rs) else Inl RuntimeError),
      ql_NPV = (\<lambda>inst.
        case pricingEngine inst of
          None \<Rightarrow> Inl RuntimeError
        | Some (DiscountingSwapEngine (YieldTermStructureHandle (ds, rs))) \<Rightarrow>
            Inr (arg_nominal inst * (sum_list rs - arg_fixedRate inst)))\<rparr>"

definition example_swap :: "(nat, nat list, string, nat list \<times> real list) VanillaSwap" where
  "example_swap =
     \<lparr>ID = ''2Y'', swapType = Some Payer, nominal = 1000000,
      startDate = 0, maturityDate = 8,
      fixedLegFrequency = ''1Y'', fixedLegCalendar = Some TARGET,
      fixedLegConvention = Some ModifiedFollowing,
      fixedLegDateGenerationRule = Some Backward,
      fixedLegRate = 0.02795, fixedLegDayCount = Some Actual360,
      fixedLegEndOfMonth = False,
      floatingLegFrequency = ''3M'', floatingLegCalendar = Some TARGET,
      floatingLegConvention = Some ModifiedFollowing,
      floatingLegDateGenerationRule = Some Backward,
      floatingLegSpread = 0, floatingLegDayCount = Some Actual360,
      floatingLegEndOfMonth = False,
      floatingLegIborIndex = Some (USDLibor ''3M'' None),
      fixedLegSchedule = [0, 4, 8], floatingLegSchedule = [0, 1, 2, 3, 4, 5, 6, 7, 8],
      instrument = None\<rparr>"

text \<open>
  A second instance of the library, whose valuation tells the index families apart:
  1 for a USD Libor index, 2 for a Euribor index.
\<close>

definition family_ql :: "(nat, nat list, string, nat list \<times> real list) quantlib" where
  "family_ql =
     \<lparr>ql_ForwardCurve = (\<lambda>ds rs dc cal.
        if length ds = length rs then Inr (ds, rs) else Inl RuntimeError),
      ql_NPV = (\<lambda>inst.
        case arg_iborIndex inst of USDLibor p c \<Rightarrow> Inr 1 | Euribor p c \<Rightarrow> Inr 2)\<rparr>"

section \<open>The objective is the scaled sum of squared first differences\<close>

lemma length_diff: "length (diff xs) = length xs - 1"
  by (induction xs rule: diff.induct) simp_all

lemma nth_diff: "i < length xs - 1 \<Longrightarrow> diff xs ! i = xs ! (i + 1) - xs ! i"
proof (induction xs arbitrary: i rule: diff.induct)
  case (1 a b xs)
  then show ?case by (cases i) simp_all
qed simp_all

lemma sum_list_diff:
  "sum_list (map f (diff xs)) = (\<Sum>i<length xs - 1. f (xs ! (i + 1) - xs ! i))"
proof -
  have "sum_list (map f (diff xs)) = (\<Sum>i<length (diff xs). f (diff xs ! i))"
    by (simp add: sum_list_sum_nth atLeast0LessThan)
  also have "\<dots> = (\<Sum>i<length xs - 1. f (xs ! (i + 1) - xs ! i))"
    by (rule sum.cong) (simp_all add: length_diff nth_diff)
  finally show ?thesis .
qed

text \<open>
  Claim C4. For every decision vector \<open>x\<close>, known prefix \<open>p\<close> and scaling factor \<open>s\<close>,
  \<open>ObjectiveFunction(x, [p, s])\<close> is \<open>s\<close> times the sum of the squared first differences
  of the full forward-rate vector \<open>f = p @ x\<close> (over the reals).
\<close>

theorem ObjectiveFunction_formula:
  "ObjectiveFunction x (p, s) =
     s * (\<Sum>i<length (p @ x) - 1. ((p @ x) ! (i + 1) - (p @ x) ! i) ^ 2)"
  unfolding ObjectiveFunction_def Let_def fst_conv snd_conv
  by (simp only: sum_list_diff sum_distrib_left mult.commute)

theorem ObjectiveFunction_formula_witness:
  "ObjectiveFunction [3, 5] ([1, 2], 10) = 60"
  using ObjectiveFunction_formula [of "[3, 5]" "[1, 2]" 10]
  by (simp add: lessThan_Suc numeral_3_eq_3 nth_Cons')

section \<open>The conversions of \<open>Convert\<close> ignore letter casing\<close>

lemma is_lower_iff: "is_lower c \<longleftrightarrow> 97 \<le> (of_char c :: nat) \<and> (of_char c :: nat) \<le> 122"
  by (simp add: is_lower_def less_eq_char_def)

lemma is_upper_iff: "is_upper c \<longleftrightarrow> 65 \<le> (of_char c :: nat) \<and> (of_char c :: nat) \<le> 90"
  by (simp add: is_upper_def less_eq_char_def)

lemma of_char_upper_char:
  assumes "is_lower c"
  shows "(of_char (upper_char c) :: nat) = of_char c - 32"
proof -
  have "(of_char c :: nat) - 32 < 256"
    using assms unfolding is_lower_iff by arith
  then have "((of_char c :: nat) - 32) mod 256 = of_char c - 32"
    by simp
  with assms show ?thesis by (simp add: upper_char_def)
qed

lemma upper_char_is_upper:
  assumes "is_lower c"
  shows "is_upper (upper_char c)"
proof -
  have "65 \<le> (of_char c :: nat) - 32 \<and> (of_char c :: nat) - 32 \<le> 90"
    using assms unfolding is_lower_iff by arith
  then show ?thesis
    unfolding is_upper_iff of_char_upper_char [OF assms] .
qed

lemma upper_not_lower: "is_upper c \<Longrightarrow> \<not> is_lower c"
  by (simp add: is_upper_iff is_lower_iff)

lemma upper_char_idem: "upper_char (upper_char c) = upper_char c"
proof (cases "is_lower c")
  case True
  then have "\<not> is_lower (upper_char c)"
    using upper_char_is_upper upper_not_lower by blast
  then show ?thesis by (simp add: upper_char_def)
next
  case False
  then show ?thesis by (simp add: upper_char_def)
qed

lemma same_letter_upper_char: "same_letter c d \<Longrightarrow> upper_char c = upper_char d"
  unfolding same_letter_def by (auto simp: upper_char_idem)

lemma equal_up_to_case_upper: "equal_up_to_case s t \<Longrightarrow> upper s = upper t"
  unfolding equal_up_to_case_def upper_def
  by (induction rule: list_all2_induct) (simp_all add: same_letter_upper_char)

lemma dot_not_letter: "\<not> is_lower (CHR ''.'')" "\<not> is_upper (CHR ''.'')"
  by (simp_all add: is_lower_def is_upper_def)

lemma same_letter_dot: "same_letter c d \<Longrightarrow> (c = CHR ''.'') = (d = CHR ''.'')"
  unfolding same_letter_def
  using dot_not_letter upper_char_is_upper by metis

lemma split_from_case:
  "list_all2 same_letter s t \<Longrightarrow> list_all2 same_letter c1 c2 \<Longrightarrow>
   list_all2 equal_up_to_case (split_from c1 s) (split_from c2 t)"
proof (induction arbitrary: c1 c2 rule: list_all2_induct)
  case Nil
  then show ?case by (simp add: equal_up_to_case_def)
next
  case (Cons x xs y ys)
  have dot: "(x = CHR ''.'') = (y = CHR ''.'')" using Cons.hyps(1) by (rule same_letter_dot)
  show ?case
  proof (cases "x = CHR ''.''")
    case True
    with dot have "y = CHR ''.''" by simp
    with True Cons show ?thesis by (simp add: equal_up_to_case_def)
  next
    case False
    with dot have ny: "y \<noteq> CHR ''.''" by simp
    have "list_all2 same_letter (c1 @ [x]) (c2 @ [y])"
      using Cons.prems Cons.hyps(1) by (simp add: list_all2_appendI)
    then have "list_all2 equal_up_to_case (split_from (c1 @ [x]) xs) (split_from (c2 @ [y]) ys)"
      by (rule Cons.IH)
    with False ny show ?thesis by simp
  qed
qed

lemma split_dot_case:
  "equal_up_to_case s t \<Longrightarrow> list_all2 equal_up_to_case (split_dot s) (split_dot t)"
  unfolding split_dot_def by (rule split_from_case) (simp_all add: equal_up_to_case_def)

lemma getitem_case:
  assumes "list_all2 R xs ys"
  shows "(\<exists>a b. getitem xs i = Inr a \<and> getitem ys i = Inr b \<and> R a b)
       \<or> (getitem xs i = Inl IndexError \<and> getitem ys i = Inl IndexError)"
  using assms by (auto simp: getitem_def list_all2_conv_all_nth)


lemma to_iborIndex_case:
  assumes st: "equal_up_to_case s t"
    and P: "\<And>a b. equal_up_to_case a b \<Longrightarrow> P a = P b"
  shows "to_iborIndex P s = to_iborIndex P t"
proof -
  have sp: "list_all2 equal_up_to_case (split_dot s) (split_dot t)"
    using st by (rule split_dot_case)
  from getitem_case [OF sp, of 0] getitem_case [OF sp, of 1]
  show ?thesis
    unfolding to_iborIndex_def Let_def
    by (auto dest: equal_up_to_case_upper P split: sum.splits)
qed


lemma split_from_nonempty: "split_from cur s \<noteq> []"
  by (induction s arbitrary: cur) simp_all

lemma getitem_split_dot_0: "getitem (split_dot s) 0 = Inr (hd (split_dot s))"
  using split_from_nonempty [of "[]" s]
  by (simp add: getitem_def split_dot_def hd_conv_nth)

text \<open>
  Claim C9. Every string dispatch of \<open>Convert\<close> is case-insensitive: two inputs that
  are equal up to letter casing get the same result from \<open>to_calendar\<close>,
  \<open>to_dayCounter\<close>, \<open>to_frequency\<close>, \<open>to_businessDayConvention\<close>,
  \<open>to_dateGenerationRule\<close> and \<open>to_swapType\<close>. \<open>to_iborIndex\<close> compares the index name
  in the same way and hands the tenor to the library's period parser unchanged: the
  two results agree when the tenor pieces are identical, and for tenors that differ in
  casing whenever the parser itself ignores casing.
\<close>

theorem Convert_case_insensitive:
  fixes ql_Period :: "string \<Rightarrow> error + 'p"
  assumes "equal_up_to_case s t"
  shows "to_calendar s = to_calendar t
       \<and> to_dayCounter s = to_dayCounter t
       \<and> to_frequency s = to_frequency t
       \<and> to_businessDayConvention s = to_businessDayConvention t
       \<and> to_dateGenerationRule s = to_dateGenerationRule t
       \<and> to_swapType s = to_swapType t
       \<and> (getitem (split_dot s) 1 = getitem (split_dot t) 1 \<longrightarrow>
            (to_iborIndex ql_Period s :: error + ('p, 'c) iborIndex option) = to_iborIndex ql_Period t)
       \<and> ((\<forall>a b. equal_up_to_case a b \<longrightarrow> ql_Period a = ql_Period b) \<longrightarrow>
            (to_iborIndex ql_Period s :: error + ('p, 'c) iborIndex option) = to_iborIndex ql_Period t)"
proof -
  have u: "upper s = upper t"
    using assms by (rule equal_up_to_case_upper)
  have sp: "list_all2 equal_up_to_case (split_dot s) (split_dot t)"
    using assms by (rule split_dot_case)
  have "equal_up_to_case (hd (split_dot s)) (hd (split_dot t))"
    using getitem_case [OF sp, of 0] by (simp add: getitem_split_dot_0)
  then have n: "upper (hd (split_dot s)) = upper (hd (split_dot t))"
    by (rule equal_up_to_case_upper)
  have i1: "(to_iborIndex ql_Period s :: error + ('p, 'c) iborIndex option) = to_iborIndex ql_Period t"
    if "getitem (split_dot s) 1 = getitem (split_dot t) 1"
    unfolding to_iborIndex_def Let_def getitem_split_dot_0 sum.case that n ..
  have i2: "(to_iborIndex ql_Period s :: error + ('p, 'c) iborIndex option) = to_iborIndex ql_Period t"
    if "\<forall>a b. equal_up_to_case a b \<longrightarrow> ql_Period a = ql_Period b"
    using assms that by (intro to_iborIndex_case) simp_all
  show ?thesis
    using i1 i2
    by (simp add: u to_calendar_def to_dayCounter_def to_frequency_def
        to_businessDayConvention_def to_dateGenerationRule_def to_swapType_def)
qed

theorem Convert_case_insensitive_witness:
  "equal_up_to_case ''Target'' ''TARGET'' \<and> to_calendar ''Target'' = Some TARGET
   \<and> equal_up_to_case ''usdlibor.3M'' ''USDLibor.3M''
   \<and> to_iborIndex Inr ''usdlibor.3M''
       = (Inr (Some (USDLibor ''3M'' None)) :: error + (string, unit) iborIndex option)"
proof -
  have h1: "equal_up_to_case ''Target'' ''TARGET''" by code_simp
  have v1: "to_calendar ''TARGET'' = Some TARGET" by code_simp
  have h2: "equal_up_to_case ''usdlibor.3M'' ''USDLibor.3M''" by code_simp
  have g2: "getitem (split_dot ''usdlibor.3M'') 1 = getitem (split_dot ''USDLibor.3M'') 1"
    by code_simp
  have v2: "to_iborIndex Inr ''USDLibor.3M''
       = (Inr (Some (USDLibor ''3M'' None)) :: error + (string, unit) iborIndex option)"
    by code_simp
  from Convert_case_insensitive [OF h1] have "to_calendar ''Target'' = to_calendar ''TARGET''"
    by (rule conjunct1)
  moreover from Convert_case_insensitive [OF h2, where ql_Period = Inr] g2
  have "to_iborIndex Inr ''usdlibor.3M''
       = (to_iborIndex Inr ''USDLibor.3M'' :: error + (string, unit) iborIndex option)"
    by blast
  ultimately show ?thesis using h1 h2 v1 v2 by simp
qed

section \<open>What \<open>Convert\<close> does with input it does not recognize\<close>

text \<open>
  Claim C2 says that a \<open>Convert\<close> operation given a string that is not a recognized
  identifier fails with a configuration error and never returns a value. The source
  has no such error and no \<open>raise\<close>: at \<open>Mars\<close>, which is no calendar name,
  \<open>to_calendar\<close> returns \<open>None\<close>; so do \<open>to_dayCounter\<close> at \<open>Actual/360\<close> and
  \<open>to_iborIndex\<close> at \<open>Libor.3M\<close>.
\<close>

theorem Convert_unrecognized_counterexample:
  "upper ''Mars'' \<notin> {''TARGET'', ''UNITEDSTATES'', ''UNITEDKINGDOM''}
   \<and> to_calendar ''Mars'' = None
   \<and> to_dayCounter ''Actual/360'' = None
   \<and> to_iborIndex Inr ''Libor.3M'' = (Inr None :: error + (string, unit) iborIndex option)"
  by code_simp

lemma to_date_IndexError:
  "length (findall s) < 3 \<Longrightarrow> to_date ql_Date s = Inl IndexError"
  by (simp add: to_date_def getitem_def)

lemma to_date_bad_month:
  assumes "3 \<le> length (findall s)" and "monthDictionary (findall s ! 1) = None"
  shows "to_date ql_Date s = Inl ValueError \<or> to_date ql_Date s = Inl KeyError"
proof (cases "py_int (findall s ! 2)")
  case (Inl e)
  then have "e = ValueError" by (simp add: py_int_def split: option.splits)
  with Inl assms show ?thesis by (simp add: to_date_def getitem_def)
next
  case (Inr d)
  with assms show ?thesis by (simp add: to_date_def getitem_def)
qed

text \<open>
  Claim C2, as the source has it. A string dispatch returns \<open>None\<close> exactly when the
  upper-cased input is none of its identifiers; \<open>to_iborIndex\<close> returns \<open>None\<close> when
  the upper-cased piece before the first dot is none of its two names, and raises
  \<open>IndexError\<close> when the name is known and no tenor piece follows; \<open>to_date\<close> raises
  \<open>IndexError\<close> on fewer than three tokens and \<open>ValueError\<close> or \<open>KeyError\<close> when the
  month token is not a key of its dictionary.
\<close>

theorem Convert_unrecognized_input:
  fixes ql_Period :: "string \<Rightarrow> error + 'p" and ql_Date :: "int \<Rightarrow> month \<Rightarrow> int \<Rightarrow> error + 'd"
  shows
   "(to_businessDayConvention s = None \<longleftrightarrow>
       upper s \<notin> {''FOLLOWING'', ''MODIFIEDFOLLOWING'', ''PRECEDING'', ''MODIFIEDPRECEDING'',
         ''UNADJUSTED''})
  \<and> (to_calendar s = None \<longleftrightarrow> upper s \<notin> {''TARGET'', ''UNITEDSTATES'', ''UNITEDKINGDOM''})
  \<and> (to_swapType s = None \<longleftrightarrow> upper s \<notin> {''PAYER'', ''RECEIVER''})
  \<and> (to_frequency s = None \<longleftrightarrow>
       upper s \<notin> {''DAILY'', ''WEEKLY'', ''MONTHLY'', ''QUARTERLY'', ''SEMIANNUAL'', ''ANNUAL''})
  \<and> (to_dateGenerationRule s = None \<longleftrightarrow> upper s \<notin> {''BACKWARD'', ''FORWARD''})
  \<and> (to_dayCounter s = None \<longleftrightarrow>
       upper s \<notin> {''ACTUAL360'', ''ACTUAL365FIXED'', ''ACTUALACTUAL'', ''ACTUAL365NOLEAP'',
         ''BUSINESS252'', ''ONEDAYCOUNTER'', ''SIMPLEDAYCOUNTER'', ''THIRTY360''})
  \<and> (upper (hd (split_dot s)) \<notin> {''USDLIBOR'', ''EURIBOR''} \<longrightarrow>
       (to_iborIndex ql_Period s :: error + ('p, 'c) iborIndex option) = Inr None)
  \<and> (upper (hd (split_dot s)) \<in> {''USDLIBOR'', ''EURIBOR''} \<and> length (split_dot s) < 2 \<longrightarrow>
       (to_iborIndex ql_Period s :: error + ('p, 'c) iborIndex option) = Inl IndexError)
  \<and> (length (findall s) < 3 \<longrightarrow> to_date ql_Date s = Inl IndexError)
  \<and> (3 \<le> length (findall s) \<and> monthDictionary (findall s ! 1) = None \<longrightarrow>
       to_date ql_Date s = Inl ValueError \<or> to_date ql_Date s = Inl KeyError)"
proof -
  have c1: "to_businessDayConvention s = None \<longleftrightarrow>
       upper s \<notin> {''FOLLOWING'', ''MODIFIEDFOLLOWING'', ''PRECEDING'', ''MODIFIEDPRECEDING'',
         ''UNADJUSTED''}"
    by (simp add: to_businessDayConvention_def)
  have c2: "to_calendar s = None \<longleftrightarrow> upper s \<notin> {''TARGET'', ''UNITEDSTATES'', ''UNITEDKINGDOM''}"
    by (simp add: to_calendar_def)
  have c3: "to_swapType s = None \<longleftrightarrow> upper s \<notin> {''PAYER'', ''RECEIVER''}"
    by (simp add: to_swapType_def)
  have c4: "to_frequency s = None \<longleftrightarrow>
       upper s \<notin> {''DAILY'', ''WEEKLY'', ''MONTHLY'', ''QUARTERLY'', ''SEMIANNUAL'', ''ANNUAL''}"
    by (simp add: to_frequency_def)
  have c5: "to_dateGenerationRule s = None \<longleftrightarrow> upper s \<notin> {''BACKWARD'', ''FORWARD''}"
    by (simp add: to_dateGenerationRule_def)
  have c6: "to_dayCounter s = None \<longleftrightarrow>
       upper s \<notin> {''ACTUAL360'', ''ACTUAL365FIXED'', ''ACTUALACTUAL'', ''ACTUAL365NOLEAP'',
         ''BUSINESS252'', ''ONEDAYCOUNTER'', ''SIMPLEDAYCOUNTER'', ''THIRTY360''}"
    by (simp add: to_dayCounter_def)
  have c7: "upper (hd (split_dot s)) \<notin> {''USDLIBOR'', ''EURIBOR''} \<longrightarrow>
       (to_iborIndex ql_Period s :: error + ('p, 'c) iborIndex option) = Inr None"
    unfolding to_iborIndex_def Let_def getitem_split_dot_0 by simp
  have c8: "upper (hd (split_dot s)) \<in> {''USDLIBOR'', ''EURIBOR''} \<and> length (split_dot s) < 2 \<longrightarrow>
       (to_iborIndex ql_Period s :: error + ('p, 'c) iborIndex option) = Inl IndexError"
  proof
    assume a: "upper (hd (split_dot s)) \<in> {''USDLIBOR'', ''EURIBOR''} \<and> length (split_dot s) < 2"
    then have "getitem (split_dot s) 1 = Inl IndexError"
      by (simp add: getitem_def)
    then show "(to_iborIndex ql_Period s :: error + ('p, 'c) iborIndex option) = Inl IndexError"
      using a unfolding to_iborIndex_def Let_def getitem_split_dot_0 by auto
  qed
  have c9: "length (findall s) < 3 \<longrightarrow> to_date ql_Date s = Inl IndexError"
    by (rule impI) (rule to_date_IndexError)
  have c10: "3 \<le> length (findall s) \<and> monthDictionary (findall s ! 1) = None \<longrightarrow>
       to_date ql_Date s = Inl ValueError \<or> to_date ql_Date s = Inl KeyError"
    by (rule impI, erule conjE) (rule to_date_bad_month)
  show ?thesis
    by (intro conjI c1 c2 c3 c4 c5 c6 c7 c8 c9 c10)
qed

theorem Convert_unrecognized_input_witness:
  "upper ''Paris'' \<notin> {''TARGET'', ''UNITEDSTATES'', ''UNITEDKINGDOM''}
   \<and> to_calendar ''Paris'' = None
   \<and> length (findall ''2008-02'') < 3
   \<and> to_date (\<lambda>d m y. Inr (d, m, y)) ''2008-02'' = (Inl IndexError :: error + int \<times> month \<times> int)"
proof -
  have h1: "upper ''Paris'' \<notin> {''TARGET'', ''UNITEDSTATES'', ''UNITEDKINGDOM''}" by code_simp
  have h2: "length (findall ''2008-02'') < 3" by code_simp
  note t1 = Convert_unrecognized_input [of "''Paris''", THEN conjunct2, THEN conjunct1]
  note t2 = Convert_unrecognized_input [of "''2008-02''" _ "\<lambda>d m y. Inr (d, m, y)",
      THEN conjunct2, THEN conjunct2, THEN conjunct2, THEN conjunct2, THEN conjunct2,
      THEN conjunct2, THEN conjunct2, THEN conjunct2, THEN conjunct1]
  have r1: "to_calendar ''Paris'' = None"
    using h1 by (rule t1 [THEN iffD2])
  have r2: "to_date (\<lambda>d m y. Inr (d, m, y)) ''2008-02'' = (Inl IndexError :: error + int \<times> month \<times> int)"
    using h2 by (rule t2 [THEN mp])
  show ?thesis
    by (intro conjI h1 h2 r1 r2)
qed

section \<open>The tokens of \<open>to_date\<close>\<close>

lemma findall_from_split:
  "\<not> is_word_char c \<Longrightarrow> findall_from cur (a @ c # b) = findall_from cur a @ findall_from [] b"
  by (induction a arbitrary: cur) simp_all

lemma findall_from_run:
  "\<forall>c\<in>set s. is_word_char c \<Longrightarrow> cur @ s \<noteq> [] \<Longrightarrow> findall_from cur s = [cur @ s]"
  by (induction s arbitrary: cur) simp_all

lemma monthDictionary_dom:
  "monthDictionary a = Some m \<Longrightarrow>
     a \<in> {''01'', ''02'', ''03'', ''04'', ''05'', ''06'', ''07'', ''08'', ''09'', ''10'', ''11'', ''12''}"
  by (simp add: monthDictionary_def split: if_splits)

lemma to_date_Inr:
  assumes "to_date ql_Date s = Inr d"
  shows "3 \<le> length (findall s)
     \<and> (\<exists>dd m y. py_int (findall s ! 2) = Inr dd \<and> monthDictionary (findall s ! 1) = Some m
          \<and> py_int (findall s ! 0) = Inr y \<and> ql_Date dd m y = Inr d)"
  using assms unfolding to_date_def Let_def getitem_def
  by (auto split: sum.splits option.splits if_splits)

lemma findall_iso: "findall ''2008-02-06'' = [''2008'', ''02'', ''06'']" by code_simp
lemma findall_slash: "findall ''2008/02/06'' = [''2008'', ''02'', ''06'']" by code_simp
lemma py_int_2008: "py_int ''2008'' = Inr 2008" by code_simp
lemma py_int_06: "py_int ''06'' = Inr 6" by code_simp
lemma monthDictionary_02: "monthDictionary ''02'' = Some February" by code_simp

lemma to_date_of_tokens:
  "findall s = [''2008'', ''02'', ''06''] \<Longrightarrow> to_date ql_Date s = ql_Date 6 February 2008"
  by (simp add: to_date_def getitem_def py_int_2008 py_int_06 monthDictionary_02)

text \<open>
  Claim C10 says that \<open>to_date\<close> splits its input on any non-alphanumeric separator.
  The underscore is not alphanumeric, yet it belongs to \<open>\w\<close>: \<open>2008_02_06\<close> is a
  single token and \<open>to_date\<close> raises \<open>IndexError\<close> on it, while \<open>2008-02-06\<close> is read
  as the 6th of February 2008.
\<close>

theorem to_date_underscore_counterexample:
  "\<not> is_lower (CHR ''_'') \<and> \<not> is_upper (CHR ''_'') \<and> \<not> is_digit (CHR ''_'')
   \<and> findall ''2008_02_06'' = [''2008_02_06'']
   \<and> to_date (\<lambda>d m y. Inr (d, m, y)) ''2008_02_06'' = (Inl IndexError :: error + int \<times> month \<times> int)
   \<and> to_date (\<lambda>d m y. Inr (d, m, y)) ''2008-02-06'' = Inr (6, February, 2008)"
  by code_simp

text \<open>
  Claim C10, as the source has it. The tokens are the maximal runs of letters,
  digits, underscores and apostrophes: the input is split at every other character,
  and a run of such characters is one token. \<open>2008-02-06\<close> and \<open>2008/02/06\<close> are read
  alike, first token the year, second the month, third the day. A date is returned
  only when there are three tokens, the month token is one of \<open>01\<close> to \<open>12\<close> and the
  day and year tokens are integers, and then it is what the library's constructor
  returns; fewer than three tokens raise \<open>IndexError\<close>, another month token raises
  \<open>ValueError\<close> or \<open>KeyError\<close>.
\<close>

theorem to_date_tokens:
  fixes ql_Date :: "int \<Rightarrow> month \<Rightarrow> int \<Rightarrow> error + 'd"
  shows
   "(\<not> is_word_char c \<longrightarrow> findall (a @ c # b) = findall a @ findall b)
  \<and> (s \<noteq> [] \<and> (\<forall>c\<in>set s. is_word_char c) \<longrightarrow> findall s = [s])
  \<and> to_date ql_Date ''2008-02-06'' = ql_Date 6 February 2008
  \<and> to_date ql_Date ''2008/02/06'' = ql_Date 6 February 2008
  \<and> (\<forall>d. to_date ql_Date s = Inr d \<longrightarrow>
        3 \<le> length (findall s)
      \<and> findall s ! 1 \<in> {''01'', ''02'', ''03'', ''04'', ''05'', ''06'', ''07'', ''08'', ''09'',
           ''10'', ''11'', ''12''}
      \<and> (\<exists>dd m y. py_int (findall s ! 2) = Inr dd \<and> monthDictionary (findall s ! 1) = Some m
           \<and> py_int (findall s ! 0) = Inr y \<and> ql_Date dd m y = Inr d))
  \<and> (length (findall s) < 3 \<longrightarrow> to_date ql_Date s = Inl IndexError)
  \<and> (3 \<le> length (findall s)
      \<and> findall s ! 1 \<notin> {''01'', ''02'', ''03'', ''04'', ''05'', ''06'', ''07'', ''08'', ''09'',
           ''10'', ''11'', ''12''} \<longrightarrow>
      to_date ql_Date s = Inl ValueError \<or> to_date ql_Date s = Inl KeyError)"
proof -
  have p1: "findall (a @ c # b) = findall a @ findall b" if "\<not> is_word_char c"
    using that by (simp add: findall_def findall_from_split)
  have p2: "findall s = [s]" if "s \<noteq> [] \<and> (\<forall>c\<in>set s. is_word_char c)"
    using that by (simp add: findall_def findall_from_run)
  have p3: "to_date ql_Date ''2008-02-06'' = ql_Date 6 February 2008"
    using findall_iso by (rule to_date_of_tokens)
  have p4: "to_date ql_Date ''2008/02/06'' = ql_Date 6 February 2008"
    using findall_slash by (rule to_date_of_tokens)
  have p5: "3 \<le> length (findall s)
      \<and> findall s ! 1 \<in> {''01'', ''02'', ''03'', ''04'', ''05'', ''06'', ''07'', ''08'', ''09'',
           ''10'', ''11'', ''12''}
      \<and> (\<exists>dd m y. py_int (findall s ! 2) = Inr dd \<and> monthDictionary (findall s ! 1) = Some m
           \<and> py_int (findall s ! 0) = Inr y \<and> ql_Date dd m y = Inr d)"
    if "to_date ql_Date s = Inr d" for d
    using to_date_Inr [OF that] monthDictionary_dom by blast
  have p7: "to_date ql_Date s = Inl ValueError \<or> to_date ql_Date s = Inl KeyError"
    if "3 \<le> length (findall s)
      \<and> findall s ! 1 \<notin> {''01'', ''02'', ''03'', ''04'', ''05'', ''06'', ''07'', ''08'', ''09'',
           ''10'', ''11'', ''12''}"
  proof -
    have "monthDictionary (findall s ! 1) = None"
      using that monthDictionary_dom [of "findall s ! 1"] by (cases "monthDictionary (findall s ! 1)") auto
    with that show ?thesis by (intro to_date_bad_month) simp_all
  qed
  show ?thesis
    using p1 p2 p3 p4 p5 p7 to_date_IndexError [of s ql_Date] by blast
qed

theorem to_date_tokens_witness:
  "\<not> is_word_char (CHR ''-'')
   \<and> findall (''2008'' @ CHR ''-'' # ''02'') = findall ''2008'' @ findall ''02''
   \<and> to_date (\<lambda>d m y. Inr (d, m, y)) ''2008-02-06'' = Inr (6, February, 2008)
   \<and> findall ''2008-2-06'' ! 1 \<notin> {''01'', ''02'', ''03'', ''04'', ''05'', ''06'', ''07'', ''08'',
        ''09'', ''10'', ''11'', ''12''}
   \<and> to_date (\<lambda>d m y. Inr (d, m, y)) ''2008-2-06'' = (Inl KeyError :: error + int \<times> month \<times> int)"
proof -
  have h1: "\<not> is_word_char (CHR ''-'')" by code_simp
  have h2: "3 \<le> length (findall ''2008-2-06'')
      \<and> findall ''2008-2-06'' ! 1 \<notin> {''01'', ''02'', ''03'', ''04'', ''05'', ''06'', ''07'', ''08'',
        ''09'', ''10'', ''11'', ''12''}" by code_simp
  have h3: "to_date (\<lambda>d m y. Inr (d, m, y)) ''2008-2-06'' \<noteq> (Inl ValueError :: error + int \<times> month \<times> int)"
    by code_simp
  note t = to_date_tokens [of "CHR ''-''" "''2008''" "''02''" "''2008-2-06''" "\<lambda>d m y. Inr (d, m, y)"]
  from t h1 have "findall (''2008'' @ CHR ''-'' # ''02'') = findall ''2008'' @ findall ''02''"
    by blast
  moreover from t have "to_date (\<lambda>d m y. Inr (d, m, y)) ''2008-02-06'' = Inr (6, February, 2008)"
    by blast
  moreover from t h2 h3
  have "to_date (\<lambda>d m y. Inr (d, m, y)) ''2008-2-06'' = (Inl KeyError :: error + int \<times> month \<times> int)"
    by blast
  ultimately show ?thesis using h1 h2 by simp
qed

section \<open>What a valuation does to the swap object\<close>

lemma clone_clone: "clone (clone i c') c = clone i c"
  by (cases i) simp_all

text \<open>
  Claim C3 says that a valuation call mutates no field of the swap object and that no
  curve state is retained on it. Both methods assign to \<open>self.floatingLegIborIndex\<close>
  and to \<open>self.instrument\<close>: after one call of \<open>NPV_calibration\<close> on a swap whose
  index had no forwarding curve, the index stored on the swap is linked to the curve of
  that call, the instrument is stored, and the object is no longer what it was.
\<close>

theorem valuation_mutates_swap_counterexample:
  "floatingLegIborIndex example_swap = Some (USDLibor ''3M'' None)
   \<and> floatingLegIborIndex (snd (NPV_calibration example_ql example_swap [0.02] ([0, 1], [0.03])))
       = Some (USDLibor ''3M'' (Some (YieldTermStructureHandle ([0, 1], [0.03, 0.02]))))
   \<and> instrument example_swap = None
   \<and> instrument (snd (NPV_calibration example_ql example_swap [0.02] ([0, 1], [0.03]))) \<noteq> None
   \<and> snd (NPV_calibration example_ql example_swap [0.02] ([0, 1], [0.03])) \<noteq> example_swap"
  by (simp add: NPV_calibration_def price_with_def example_ql_def example_swap_def
      setPricingEngine_def Let_def)

lemma price_with_fst:
  "floatingLegIborIndex self = Some idx \<Longrightarrow>
   fst (price_with ql self c) =
     ql_NPV ql \<lparr>arg_swapType = swapType self, arg_nominal = nominal self,
       arg_fixedSchedule = fixedLegSchedule self, arg_fixedRate = fixedLegRate self,
       arg_fixedDayCount = fixedLegDayCount self, arg_floatSchedule = floatingLegSchedule self,
       arg_iborIndex = idx, arg_spread = floatingLegSpread self,
       arg_floatingDayCount = floatingLegDayCount self,
       pricingEngine = Some (DiscountingSwapEngine c)\<rparr>"
  by (simp add: price_with_def Let_def setPricingEngine_def)

lemma NPV_calibration_frame:
  "snd (NPV_calibration ql self x args)
     \<lparr>floatingLegIborIndex := floatingLegIborIndex self, instrument := instrument self\<rparr> = self"
  by (simp add: NPV_calibration_def price_with_def Let_def split: sum.splits option.splits)

lemma NPV_frame:
  "snd (NPV ql self h i)
     \<lparr>floatingLegIborIndex := floatingLegIborIndex self, instrument := instrument self\<rparr> = self"
  by (simp add: NPV_def price_with_def Let_def split: sum.splits option.splits)

lemma NPV_calibration_repeat:
  "NPV_calibration ql (snd (NPV_calibration ql self x args)) x args = NPV_calibration ql self x args"
  by (simp add: NPV_calibration_def price_with_def Let_def setPricingEngine_def clone_clone
      split: sum.splits option.splits)

lemma NPV_repeat:
  "NPV ql (snd (NPV ql self h i)) h i = NPV ql self h i"
  by (simp add: NPV_def price_with_def Let_def setPricingEngine_def)

lemma NPV_calibration_history:
  "fst (NPV_calibration ql (snd (NPV_calibration ql self x' args')) x args)
     = fst (NPV_calibration ql self x args)"
  by (simp add: NPV_calibration_def price_with_def Let_def setPricingEngine_def clone_clone
      split: sum.splits option.splits)

lemma NPV_history:
  "fst (NPV ql (snd (NPV_calibration ql self x' args')) h i) = fst (NPV ql self h i)"
  by (simp add: NPV_def NPV_calibration_def price_with_def Let_def setPricingEngine_def
      split: sum.splits option.splits)

lemma NPV_calibration_retains:
  assumes "fst (NPV_calibration ql self x args) = Inr v"
  shows "\<exists>fc idx inst.
      ql_ForwardCurve ql (fst args) (snd args @ x) (floatingLegDayCount self)
        (floatingLegCalendar self) = Inr fc
    \<and> floatingLegIborIndex self = Some idx
    \<and> floatingLegIborIndex (snd (NPV_calibration ql self x args))
        = Some (clone idx (YieldTermStructureHandle fc))
    \<and> instrument (snd (NPV_calibration ql self x args)) = Some inst
    \<and> pricingEngine inst = Some (DiscountingSwapEngine (YieldTermStructureHandle fc))"
  using assms
  by (auto simp: NPV_calibration_def price_with_def Let_def setPricingEngine_def
      split: sum.splits option.splits)

lemma NPV_after_NPV:
  "fst (NPV ql (snd (NPV ql self h' i')) h i) = fst (NPV ql self h i)"
  by (simp add: NPV_def price_with_def Let_def setPricingEngine_def)

lemma NPV_calibration_after_NPV:
  "fst (NPV_calibration ql (snd (NPV ql self h' i')) x args)
     = fst (NPV_calibration ql (self\<lparr>floatingLegIborIndex := Some i'\<rparr>) x args)"
  by (simp add: NPV_def NPV_calibration_def price_with_def Let_def setPricingEngine_def
      clone_clone split: sum.splits)

lemma static_NPV_calibration:
  "snd (NPV_calibration ql self x args)\<lparr>floatingLegIborIndex := a, instrument := b\<rparr>
     = self\<lparr>floatingLegIborIndex := a, instrument := b\<rparr>"
  by (simp add: NPV_calibration_def price_with_def Let_def split: sum.splits option.splits)

lemma static_NPV:
  "snd (NPV ql self h i)\<lparr>floatingLegIborIndex := a, instrument := b\<rparr>
     = self\<lparr>floatingLegIborIndex := a, instrument := b\<rparr>"
  by (simp add: NPV_def price_with_def Let_def)

lemma static_after:
  "after ql self vs\<lparr>floatingLegIborIndex := a, instrument := b\<rparr>
     = self\<lparr>floatingLegIborIndex := a, instrument := b\<rparr>"
proof (induction vs arbitrary: self)
  case Nil
  show ?case by simp
next
  case (Cons v vs)
  show ?case
    by (cases v) (simp_all add: Cons.IH static_NPV_calibration static_NPV)
qed

lemma static_fields:
  assumes "s1\<lparr>floatingLegIborIndex := a, instrument := b\<rparr>
     = s2\<lparr>floatingLegIborIndex := a, instrument := b\<rparr>"
  shows "swapType s1 = swapType s2 \<and> nominal s1 = nominal s2
     \<and> fixedLegSchedule s1 = fixedLegSchedule s2 \<and> fixedLegRate s1 = fixedLegRate s2
     \<and> fixedLegDayCount s1 = fixedLegDayCount s2
     \<and> floatingLegSchedule s1 = floatingLegSchedule s2
     \<and> floatingLegSpread s1 = floatingLegSpread s2
     \<and> floatingLegDayCount s1 = floatingLegDayCount s2
     \<and> floatingLegCalendar s1 = floatingLegCalendar s2"
proof -
  have f: "f (s1\<lparr>floatingLegIborIndex := a, instrument := b\<rparr>)
      = f (s2\<lparr>floatingLegIborIndex := a, instrument := b\<rparr>)" for f :: "_ \<Rightarrow> 'x"
    using assms by simp
  show ?thesis
    using f [of swapType] f [of nominal] f [of fixedLegSchedule] f [of fixedLegRate]
      f [of fixedLegDayCount] f [of floatingLegSchedule] f [of floatingLegSpread]
      f [of floatingLegDayCount] f [of floatingLegCalendar]
    by simp
qed

lemma NPV_static:
  assumes "s1\<lparr>floatingLegIborIndex := a, instrument := b\<rparr>
     = s2\<lparr>floatingLegIborIndex := a, instrument := b\<rparr>"
  shows "fst (NPV ql s1 h i) = fst (NPV ql s2 h i)"
  using static_fields [OF assms]
  by (simp add: NPV_def price_with_def Let_def setPricingEngine_def)

lemma index_NPV_calibration:
  "map_option (\<lambda>i. clone i c) (floatingLegIborIndex (snd (NPV_calibration ql self x args)))
     = map_option (\<lambda>i. clone i c) (floatingLegIborIndex self)"
  by (simp add: NPV_calibration_def price_with_def Let_def clone_clone
      split: sum.splits option.splits)

lemma index_after:
  "list_all is_calibration vs \<Longrightarrow>
   map_option (\<lambda>i. clone i c) (floatingLegIborIndex (after ql self vs))
     = map_option (\<lambda>i. clone i c) (floatingLegIborIndex self)"
proof (induction vs arbitrary: self)
  case Nil
  show ?case by simp
next
  case (Cons v vs)
  then show ?case
    by (cases v) (simp_all add: index_NPV_calibration)
qed

lemma NPV_calibration_static:
  assumes "s1\<lparr>floatingLegIborIndex := a, instrument := b\<rparr>
     = s2\<lparr>floatingLegIborIndex := a, instrument := b\<rparr>"
    and "\<And>c. map_option (\<lambda>i. clone i c) (floatingLegIborIndex s1)
       = map_option (\<lambda>i. clone i c) (floatingLegIborIndex s2)"
  shows "fst (NPV_calibration ql s1 x args) = fst (NPV_calibration ql s2 x args)"
  using static_fields [OF assms(1)] assms(2)
  by (cases "floatingLegIborIndex s1"; cases "floatingLegIborIndex s2")
    (auto simp: NPV_calibration_def price_with_def Let_def setPricingEngine_def
      split: sum.splits)

lemma NPV_after:
  "fst (NPV ql (after ql self vs) h i) = fst (NPV ql self h i)"
  by (rule NPV_static [where a = None and b = None]) (rule static_after)

lemma NPV_calibration_after:
  "list_all is_calibration vs \<Longrightarrow>
   fst (NPV_calibration ql (after ql self vs) x args) = fst (NPV_calibration ql self x args)"
  by (rule NPV_calibration_static [where a = None and b = None])
    (simp_all add: static_after index_after)

text \<open>
  The stored index is read again by \<open>NPV_calibration\<close>: on the example swap, whose own
  index is a USD Libor index, the same call of \<open>NPV_calibration\<close> gives another value
  once \<open>NPV\<close> has been called with a Euribor index.
\<close>

lemma NPV_calibration_after_NPV_example:
  "fst (NPV_calibration family_ql example_swap [0.02] ([0, 1], [0.03])) = Inr 1
   \<and> fst (NPV_calibration family_ql
        (snd (NPV family_ql example_swap (YieldTermStructureHandle ([0, 1], [0.03, 0.02]))
           (Euribor ''6M'' None))) [0.02] ([0, 1], [0.03])) = Inr 2"
  by (simp add: NPV_def NPV_calibration_def price_with_def family_ql_def example_swap_def
      setPricingEngine_def Let_def)

text \<open>
  Claim C3, as the source has it. A valuation call (\<open>NPV_calibration\<close> or \<open>NPV\<close>)
  changes no member of the swap other than \<open>floatingLegIborIndex\<close> and \<open>instrument\<close>;
  repeated at once with the same inputs it returns the same value and leaves the same
  object. The value of \<open>NPV\<close> does not depend on the valuations made before it,
  whatever they were, and the value of \<open>NPV_calibration\<close> does not depend on the calls
  of \<open>NPV_calibration\<close> made before it. The object does retain state: after a call of
  \<open>NPV_calibration\<close> that returned a value the stored index is the old index linked to
  the curve of that call, and the stored instrument has the engine that discounts on
  that curve; after a call of \<open>NPV\<close> the stored index is the index that call was
  given, linked to its curve, the stored instrument holds that index and the engine
  that discounts on that curve, and a later \<open>NPV_calibration\<close> values the swap with
  that index in place of its own.
\<close>

theorem valuation_frame_and_repeat:
  "snd (NPV_calibration ql self x args)
     \<lparr>floatingLegIborIndex := floatingLegIborIndex self, instrument := instrument self\<rparr> = self
   \<and> snd (NPV ql self h i)
     \<lparr>floatingLegIborIndex := floatingLegIborIndex self, instrument := instrument self\<rparr> = self
   \<and> NPV_calibration ql (snd (NPV_calibration ql self x args)) x args
       = NPV_calibration ql self x args
   \<and> NPV ql (snd (NPV ql self h i)) h i = NPV ql self h i
   \<and> fst (NPV_calibration ql (snd (NPV_calibration ql self x' args')) x args)
       = fst (NPV_calibration ql self x args)
   \<and> fst (NPV ql (snd (NPV_calibration ql self x' args')) h i) = fst (NPV ql self h i)
   \<and> (\<forall>v. fst (NPV_calibration ql self x args) = Inr v \<longrightarrow>
        (\<exists>fc idx inst.
            ql_ForwardCurve ql (fst args) (snd args @ x) (floatingLegDayCount self)
              (floatingLegCalendar self) = Inr fc
          \<and> floatingLegIborIndex self = Some idx
          \<and> floatingLegIborIndex (snd (NPV_calibration ql self x args))
              = Some (clone idx (YieldTermStructureHandle fc))
          \<and> instrument (snd (NPV_calibration ql self x args)) = Some inst
          \<and> pricingEngine inst = Some (DiscountingSwapEngine (YieldTermStructureHandle fc))))
   \<and> floatingLegIborIndex (snd (NPV ql self h i)) = Some (clone i h)
   \<and> (\<exists>inst. instrument (snd (NPV ql self h i)) = Some inst
         \<and> arg_iborIndex inst = clone i h
         \<and> pricingEngine inst = Some (DiscountingSwapEngine h))
   \<and> fst (NPV ql (snd (NPV ql self h' i')) h i) = fst (NPV ql self h i)
   \<and> fst (NPV_calibration ql (snd (NPV ql self h' i')) x args)
       = fst (NPV_calibration ql (self\<lparr>floatingLegIborIndex := Some i'\<rparr>) x args)
   \<and> fst (NPV ql (after ql self vs) h i) = fst (NPV ql self h i)
   \<and> (list_all is_calibration vs \<longrightarrow>
        fst (NPV_calibration ql (after ql self vs) x args)
          = fst (NPV_calibration ql self x args))"
proof -
  have a: "list_all is_calibration vs \<longrightarrow>
        fst (NPV_calibration ql (after ql self vs) x args)
          = fst (NPV_calibration ql self x args)"
    by (rule impI) (rule NPV_calibration_after)
  have r: "\<forall>v. fst (NPV_calibration ql self x args) = Inr v \<longrightarrow>
        (\<exists>fc idx inst.
            ql_ForwardCurve ql (fst args) (snd args @ x) (floatingLegDayCount self)
              (floatingLegCalendar self) = Inr fc
          \<and> floatingLegIborIndex self = Some idx
          \<and> floatingLegIborIndex (snd (NPV_calibration ql self x args))
              = Some (clone idx (YieldTermStructureHandle fc))
          \<and> instrument (snd (NPV_calibration ql self x args)) = Some inst
          \<and> pricingEngine inst = Some (DiscountingSwapEngine (YieldTermStructureHandle fc)))"
    by (intro allI impI) (rule NPV_calibration_retains)
  have n: "floatingLegIborIndex (snd (NPV ql self h i)) = Some (clone i h)"
    by (simp add: NPV_def price_with_def Let_def)
  have m: "\<exists>inst. instrument (snd (NPV ql self h i)) = Some inst
         \<and> arg_iborIndex inst = clone i h
         \<and> pricingEngine inst = Some (DiscountingSwapEngine h)"
    by (simp add: NPV_def price_with_def Let_def setPricingEngine_def)
  show ?thesis
    by (intro conjI NPV_calibration_frame NPV_frame NPV_calibration_repeat NPV_repeat
        NPV_calibration_history NPV_history r n m NPV_after_NPV NPV_calibration_after_NPV
        NPV_after a)
qed

theorem valuation_frame_and_repeat_witness:
  "fst (NPV_calibration example_ql example_swap [0.02] ([0, 1], [0.03])) = Inr 22050
   \<and> (\<exists>fc idx inst.
         ql_ForwardCurve example_ql [0, 1] ([0.03] @ [0.02]) (floatingLegDayCount example_swap)
           (floatingLegCalendar example_swap) = Inr fc
       \<and> floatingLegIborIndex example_swap = Some idx
       \<and> floatingLegIborIndex (snd (NPV_calibration example_ql example_swap [0.02] ([0, 1], [0.03])))
           = Some (clone idx (YieldTermStructureHandle fc))
       \<and> instrument (snd (NPV_calibration example_ql example_swap [0.02] ([0, 1], [0.03])))
           = Some inst
       \<and> pricingEngine inst = Some (DiscountingSwapEngine (YieldTermStructureHandle fc)))
   \<and> list_all is_calibration
         [Calibration [0.05] ([0, 1], [0.01]), Calibration [0.04] ([0, 1], [0.02])
            :: (nat, string, nat list \<times> real list) valuation]
   \<and> fst (NPV_calibration example_ql
         (after example_ql example_swap
            [Calibration [0.05] ([0, 1], [0.01]), Calibration [0.04] ([0, 1], [0.02])])
         [0.02] ([0, 1], [0.03])) = Inr 22050"
proof -
  have v: "fst (NPV_calibration example_ql example_swap [0.02] ([0, 1], [0.03])) = Inr 22050"
    by (simp add: NPV_calibration_def price_with_def example_ql_def example_swap_def
        setPricingEngine_def Let_def)
  have c: "list_all is_calibration
         [Calibration [0.05] ([0, 1], [0.01]), Calibration [0.04] ([0, 1], [0.02])
            :: (nat, string, nat list \<times> real list) valuation]"
    by simp
  note t = valuation_frame_and_repeat [where ql = example_ql and self = example_swap
      and x = "[0.02]" and args = "([0, 1], [0.03])",
      THEN conjunct2, THEN conjunct2, THEN conjunct2, THEN conjunct2, THEN conjunct2,
      THEN conjunct2, THEN conjunct1, THEN spec, THEN mp, OF v]
  note u = valuation_frame_and_repeat [where ql = example_ql and self = example_swap
      and x = "[0.02]" and args = "([0, 1], [0.03])",
      THEN conjunct2, THEN conjunct2, THEN conjunct2, THEN conjunct2, THEN conjunct2,
      THEN conjunct2, THEN conjunct2, THEN conjunct2, THEN conjunct2, THEN conjunct2,
      THEN conjunct2, THEN conjunct2, THEN mp, OF c]
  have w: "fst (NPV_calibration example_ql
         (after example_ql example_swap
            [Calibration [0.05] ([0, 1], [0.01]), Calibration [0.04] ([0, 1], [0.02])])
         [0.02] ([0, 1], [0.03])) = Inr 22050"
    using u v by simp
  have e: "\<exists>fc idx inst.
         ql_ForwardCurve example_ql [0, 1] ([0.03] @ [0.02]) (floatingLegDayCount example_swap)
           (floatingLegCalendar example_swap) = Inr fc
       \<and> floatingLegIborIndex example_swap = Some idx
       \<and> floatingLegIborIndex (snd (NPV_calibration example_ql example_swap [0.02] ([0, 1], [0.03])))
           = Some (clone idx (YieldTermStructureHandle fc))
       \<and> instrument (snd (NPV_calibration example_ql example_swap [0.02] ([0, 1], [0.03])))
           = Some inst
       \<and> pricingEngine inst = Some (DiscountingSwapEngine (YieldTermStructureHandle fc))"
    using t unfolding fst_conv snd_conv .
  show ?thesis
    by (intro conjI v e c w)
qed

section \<open>The constraints of the optimization problem\<close>

text \<open>
  Claim C5. There is exactly one constraint per swap of the calibration set, of type
  \<open>eq\<close> (its function is to be zero), bound to that swap. Evaluating it at a decision
  vector \<open>x\<close> is \<open>NPV_calibration\<close> of that swap at \<open>x\<close> with the fixed date grid and
  the market-rate prefix: the curve is built from the grid and the prefix followed by
  \<open>x\<close>, an exception of the curve constructor is the result, and otherwise the result
  is the value of the swap whose index is linked to that curve and whose engine
  discounts on it.
\<close>

theorem swapConstraints_one_per_swap:
  "length (swapConstraints swaps dates) = length swaps
   \<and> (\<forall>k<length swaps.
        type_c (swapConstraints swaps dates ! k) = ''eq''
      \<and> fun_c (swapConstraints swaps dates ! k) = swaps ! k
      \<and> call_constraint ql (swapConstraints swaps dates ! k) x
          = NPV_calibration ql (swaps ! k) x (dates, initialMarketData)
      \<and> (\<forall>e. ql_ForwardCurve ql dates (initialMarketData @ x)
                (floatingLegDayCount (swaps ! k)) (floatingLegCalendar (swaps ! k)) = Inl e \<longrightarrow>
              fst (call_constraint ql (swapConstraints swaps dates ! k) x) = Inl e)
      \<and> (\<forall>fc idx. ql_ForwardCurve ql dates (initialMarketData @ x)
                (floatingLegDayCount (swaps ! k)) (floatingLegCalendar (swaps ! k)) = Inr fc
              \<and> floatingLegIborIndex (swaps ! k) = Some idx \<longrightarrow>
              fst (call_constraint ql (swapConstraints swaps dates ! k) x) =
                ql_NPV ql
                  \<lparr>arg_swapType = swapType (swaps ! k), arg_nominal = nominal (swaps ! k),
                   arg_fixedSchedule = fixedLegSchedule (swaps ! k),
                   arg_fixedRate = fixedLegRate (swaps ! k),
                   arg_fixedDayCount = fixedLegDayCount (swaps ! k),
                   arg_floatSchedule = floatingLegSchedule (swaps ! k),
                   arg_iborIndex = clone idx (YieldTermStructureHandle fc),
                   arg_spread = floatingLegSpread (swaps ! k),
                   arg_floatingDayCount = floatingLegDayCount (swaps ! k),
                   pricingEngine = Some (DiscountingSwapEngine (YieldTermStructureHandle fc))\<rparr>))"
proof (intro conjI allI impI)
  show "length (swapConstraints swaps dates) = length swaps"
    by (simp add: swapConstraints_def)
next
  fix k assume k: "k < length swaps"
  show "type_c (swapConstraints swaps dates ! k) = ''eq''"
    using k by (simp add: swapConstraints_def)
  show "fun_c (swapConstraints swaps dates ! k) = swaps ! k"
    using k by (simp add: swapConstraints_def)
  show c: "call_constraint ql (swapConstraints swaps dates ! k) x
          = NPV_calibration ql (swaps ! k) x (dates, initialMarketData)"
    using k by (simp add: swapConstraints_def call_constraint_def)
  { fix e
    assume "ql_ForwardCurve ql dates (initialMarketData @ x)
                (floatingLegDayCount (swaps ! k)) (floatingLegCalendar (swaps ! k)) = Inl e"
    then show "fst (call_constraint ql (swapConstraints swaps dates ! k) x) = Inl e"
      unfolding c by (simp add: NPV_calibration_def) }
  { fix fc idx
    assume a: "ql_ForwardCurve ql dates (initialMarketData @ x)
                (floatingLegDayCount (swaps ! k)) (floatingLegCalendar (swaps ! k)) = Inr fc
              \<and> floatingLegIborIndex (swaps ! k) = Some idx"
    then show "fst (call_constraint ql (swapConstraints swaps dates ! k) x) =
                ql_NPV ql
                  \<lparr>arg_swapType = swapType (swaps ! k), arg_nominal = nominal (swaps ! k),
                   arg_fixedSchedule = fixedLegSchedule (swaps ! k),
                   arg_fixedRate = fixedLegRate (swaps ! k),
                   arg_fixedDayCount = fixedLegDayCount (swaps ! k),
                   arg_floatSchedule = floatingLegSchedule (swaps ! k),
                   arg_iborIndex = clone idx (YieldTermStructureHandle fc),
                   arg_spread = floatingLegSpread (swaps ! k),
                   arg_floatingDayCount = floatingLegDayCount (swaps ! k),
                   pricingEngine = Some (DiscountingSwapEngine (YieldTermStructureHandle fc))\<rparr>"
      unfolding c by (simp add: NPV_calibration_def Let_def price_with_fst) }
qed

theorem swapConstraints_one_per_swap_witness:
  "(0::nat) < length [example_swap]
   \<and> type_c (swapConstraints [example_swap] [0, 1, 2, 3, 4] ! 0) = ''eq''
   \<and> fun_c (swapConstraints [example_swap] [0, 1, 2, 3, 4] ! 0) = example_swap
   \<and> call_constraint example_ql (swapConstraints [example_swap] [0, 1, 2, 3, 4] ! 0) [0.02]
       = NPV_calibration example_ql example_swap [0.02] ([0, 1, 2, 3, 4], initialMarketData)"
proof -
  have h: "(0::nat) < length [example_swap]" by simp
  note t = swapConstraints_one_per_swap [where swaps = "[example_swap]"
      and dates = "[0, 1, 2, 3, 4]" and ql = example_ql and x = "[0.02]",
      THEN conjunct2, THEN spec, THEN mp, OF h]
  have t1: "type_c (swapConstraints [example_swap] [0, 1, 2, 3, 4] ! 0) = ''eq''"
    using t by (rule conjunct1)
  have t2: "fun_c (swapConstraints [example_swap] [0, 1, 2, 3, 4] ! 0) = example_swap"
    using t [THEN conjunct2, THEN conjunct1] by simp
  have t3: "call_constraint example_ql (swapConstraints [example_swap] [0, 1, 2, 3, 4] ! 0) [0.02]
       = NPV_calibration example_ql example_swap [0.02] ([0, 1, 2, 3, 4], initialMarketData)"
    using t [THEN conjunct2, THEN conjunct2, THEN conjunct1] by simp
  show ?thesis by (intro conjI h t1 t2 t3)
qed

section \<open>The configuration of the solver\<close>

text \<open>
  Claim C8. The call of the optimizer names the method \<open>SLSQP\<close> (sequential
  least-squares quadratic programming), caps the iterations at 500, starts from the
  vector of 117 entries all equal to 0.02, minimizes \<open>ObjectiveFunction\<close> with the
  market-rate prefix and the scaling factor, and all its constraints are equality
  constraints.
\<close>

theorem model_call_configuration:
  "fun_m (model_call swaps dates) = ObjectiveFunction
   \<and> args_m (model_call swaps dates) = (initialMarketData, scalingFactor)
   \<and> method_m (model_call swaps dates) = ''SLSQP''
   \<and> options_m (model_call swaps dates) ''maxiter'' = Some 500
   \<and> x0 (model_call swaps dates) = replicate 117 (2 / 100)
   \<and> length (x0 (model_call swaps dates)) = 117
   \<and> map type_c (constraints_m (model_call swaps dates)) = replicate (length swaps) ''eq''"
  by (simp add: model_call_def initialForwardGuesses_def swapConstraints_def map_replicate_const comp_def)

theorem model_call_configuration_witness:
  "method_m (model_call [example_swap] [0, 1, 2, 3, 4]) = ''SLSQP''
   \<and> options_m (model_call [example_swap] [0, 1, 2, 3, 4]) ''maxiter'' = Some 500
   \<and> x0 (model_call [example_swap] [0, 1, 2, 3, 4]) ! 116 = 0.02
   \<and> map type_c (constraints_m (model_call [example_swap] [0, 1, 2, 3, 4])) = [''eq'']"
  using model_call_configuration [where swaps = "[example_swap]" and dates = "[0, 1, 2, 3, 4]"]
  by simp

section \<open>The grid of knot dates\<close>
















lemma zip_30Y: "zip swapIDs maturities ! 13 = (''30Y'', ''2038-02-08'')"
  by code_simp





end
